theory Spec2Isabelle
  imports Complex_Main "HOL-Library.Sublist"
begin

section \<open>Support copilot: issue analysis, reply template, conversation summary\<close>

text \<open>
  A shallow embedding of \<^verbatim>\<open>src/app.py\<close>. A Python \<^verbatim>\<open>str\<close> is a \<^typ>\<open>string\<close>, one
  \<^typ>\<open>char\<close> per character. A Python \<^verbatim>\<open>dict\<close> with a fixed set of keys is a record
  whose fields are options: \<open>None\<close> is an absent key. Every \<^verbatim>\<open>raise\<close> is a value
  \<open>Inl e\<close> of a sum type. The two reads of the environment, \<^verbatim>\<open>datetime.now()\<close> and
  \<^verbatim>\<open>time.time()\<close>, are explicit arguments.
\<close>

subsection \<open>Errors\<close>

datatype py_error = KeyError string | TypeError string

subsection \<open>The store\<close>

text \<open>
  The two tables of \<^verbatim>\<open>init_db\<close>. Columns carry the prefix \<open>i_\<close> (table \<^verbatim>\<open>issues\<close>) and
  \<open>c_\<close> (table \<^verbatim>\<open>conversations\<close>). Only \<^verbatim>\<open>resolution\<close> is ever written as \<^verbatim>\<open>None\<close>
  by the program, so it alone is an option.

  A timestamp is a count of microseconds on the naive local time line. SQLite stores
  and compares the ISO texts \<^verbatim>\<open>YYYY-MM-DD HH:MM:SS[.ffffff]\<close>; the fields are of fixed
  width and the fraction is left out exactly when it is zero, so the order of the texts
  is the order of the counts.
\<close>

record issue =
  i_id :: int
  i_customer_id :: string
  i_issue_description :: string
  i_created_at :: int
  i_severity :: string
  i_status :: string
  i_product_id :: string
  i_resolution :: "string option"

record conversation =
  c_issue_id :: int
  c_message :: string
  c_sender :: string
  c_timestamp :: int

record db =
  issues :: "issue list"
  conversations :: "conversation list"

text \<open>Calendar arithmetic for the literals of the sample data (proleptic Gregorian).\<close>

definition is_leap :: "int \<Rightarrow> bool" where
  "is_leap y \<longleftrightarrow> y mod 4 = 0 \<and> (y mod 100 \<noteq> 0 \<or> y mod 400 = 0)"

definition days_before_year :: "int \<Rightarrow> int" where
  "days_before_year y = (y - 1) * 365 + (y - 1) div 4 - (y - 1) div 100 + (y - 1) div 400"

definition days_in_month :: "int \<Rightarrow> int list" where
  "days_in_month y = [31, if is_leap y then 29 else 28, 31, 30, 31, 30, 31, 31, 30, 31, 30, 31]"

definition days_before_month :: "int \<Rightarrow> nat \<Rightarrow> int" where
  "days_before_month y m = sum_list (take (m - 1) (days_in_month y))"

definition datetime :: "int \<Rightarrow> nat \<Rightarrow> int \<Rightarrow> int \<Rightarrow> int \<Rightarrow> int \<Rightarrow> int" where
  "datetime y m d hh mi ss =
     ((((days_before_year y + days_before_month y m + d) * 24 + hh) * 60 + mi) * 60 + ss) * 1000000"

definition timedelta_hours :: "int \<Rightarrow> int" where
  "timedelta_hours h = h * 3600 * 1000000"

definition timedelta_seconds :: "int \<Rightarrow> int" where
  "timedelta_seconds s = s * 1000000"

definition init_db :: db where
  "init_db = \<lparr>
     issues = [
       \<lparr>i_id = 1, i_customer_id = ''CUST001'', i_issue_description = ''Login failure'',
        i_created_at = datetime 2025 7 11 10 0 0, i_severity = ''High'', i_status = ''Open'',
        i_product_id = ''PROD001'', i_resolution = None\<rparr>,
       \<lparr>i_id = 2, i_customer_id = ''CUST001'', i_issue_description = ''Payment issue'',
        i_created_at = datetime 2025 7 12 8 0 0, i_severity = ''Normal'', i_status = ''Open'',
        i_product_id = ''PROD002'', i_resolution = None\<rparr>,
       \<lparr>i_id = 3, i_customer_id = ''CUST002'', i_issue_description = ''UI glitch'',
        i_created_at = datetime 2025 7 10 15 0 0, i_severity = ''Low'', i_status = ''Resolved'',
        i_product_id = ''PROD001'', i_resolution = Some ''Restart the application''\<rparr>],
     conversations = []\<rparr>"

subsection \<open>Strings\<close>

text \<open>
  \<^verbatim>\<open>str.lower\<close> on the letters A to Z. Python also lower-cases letters outside ASCII;
  no keyword of the classifier holds such a letter or the letter k (the lower case of
  the Kelvin sign), so those are left as they are.
\<close>

definition lower_char :: "char \<Rightarrow> char" where
  "lower_char c =
     (case map_of (zip ''ABCDEFGHIJKLMNOPQRSTUVWXYZ'' ''abcdefghijklmnopqrstuvwxyz'') c of
        Some l \<Rightarrow> l
      | None \<Rightarrow> c)"

definition lower :: "string \<Rightarrow> string" where
  "lower s = map lower_char s"

text \<open>\<^verbatim>\<open>word in text\<close>: the word occurs in the text as a contiguous run.\<close>

fun py_in :: "string \<Rightarrow> string \<Rightarrow> bool" where
  "py_in w [] = (w = [])"
| "py_in w (c # cs) = (prefix w (c # cs) \<or> py_in w cs)"

text \<open>\<^verbatim>\<open>str(n)\<close> for an integer: decimal digits, a minus sign when negative.\<close>

definition digit_char :: "nat \<Rightarrow> char" where
  "digit_char d = ''0123456789'' ! d"

function str_nat :: "nat \<Rightarrow> string" where
  "str_nat n = (if n < 10 then [digit_char n] else str_nat (n div 10) @ [digit_char (n mod 10)])"
  by pat_completeness auto
termination
  by (relation "measure id") auto

definition str_int :: "int \<Rightarrow> string" where
  "str_int n = (if n < 0 then CHR ''-'' # str_nat (nat (- n)) else str_nat (nat n))"

subsection \<open>Issue analysis\<close>

text \<open>
  A dictionary entry of \<^verbatim>\<open>similar_issues\<close> and the dictionary \<^verbatim>\<open>analysis\<close>. A key that a
  dictionary does not hold is \<open>None\<close>. The function \<^verbatim>\<open>analyze_issue\<close> builds an analysis
  with all four keys, and every entry of its \<^verbatim>\<open>similar_issues\<close> holds both keys; the
  dispatcher can hand \<^verbatim>\<open>generate_template\<close> an analysis or an entry with keys missing. The
  values of the keys have the types that \<^verbatim>\<open>analyze_issue\<close> gives them.
\<close>

record similar_issue =
  description :: "string option"
  resolution :: "string option"

record analysis =
  past_issues_count :: "int option"
  similar_issues :: "similar_issue list option"
  severity :: "string option"
  has_critical_issues :: "bool option"

definition keywords_dict :: "(string \<times> string list) list" where
  "keywords_dict =
     [(''High'', [''failure'', ''crash'', ''urgent'']),
      (''Normal'', [''issue'', ''problem'']),
      (''Low'', [''glitch'', ''minor''])]"

text \<open>
  The loop over \<^verbatim>\<open>keywords.items()\<close>, in insertion order: the first entry with a word
  in the lower-cased description sets the severity and breaks.
\<close>

fun scan_keywords :: "(string \<times> string list) list \<Rightarrow> string \<Rightarrow> string \<Rightarrow> string" where
  "scan_keywords [] issue_description_lower current = current"
| "scan_keywords ((sev, words) # rest) issue_description_lower current =
     (if list_ex (\<lambda>word. py_in word issue_description_lower) words then sev
      else scan_keywords rest issue_description_lower current)"

definition determine_severity :: "string \<Rightarrow> string" where
  "determine_severity issue_description = scan_keywords keywords_dict (lower issue_description) ''Normal''"

text \<open>The three queries of \<^verbatim>\<open>analyze_issue\<close>.\<close>

definition count_issues :: "db \<Rightarrow> string \<Rightarrow> int" where
  "count_issues conn customer_id =
     int (length (filter (\<lambda>r. i_customer_id r = customer_id) (issues conn)))"

definition find_resolved :: "db \<Rightarrow> string \<Rightarrow> (string \<times> string option) list" where
  "find_resolved conn product_id =
     map (\<lambda>r. (i_issue_description r, i_resolution r))
       (filter (\<lambda>r. i_product_id r = product_id \<and> i_status r = ''Resolved'') (issues conn))"

definition count_open_high_older_than :: "db \<Rightarrow> string \<Rightarrow> int \<Rightarrow> int" where
  "count_open_high_older_than conn customer_id threshold =
     int (length (filter (\<lambda>r. i_customer_id r = customer_id \<and> i_severity r = ''High''
                              \<and> i_status r = ''Open'' \<and> i_created_at r < threshold) (issues conn)))"

text \<open>\<^verbatim>\<open>res if res else 'No resolution provided'\<close>: \<^verbatim>\<open>None\<close> and the empty text are falsy.\<close>

definition resolution_or_default :: "string option \<Rightarrow> string" where
  "resolution_or_default res =
     (case res of
        None \<Rightarrow> ''No resolution provided''
      | Some r \<Rightarrow> if r \<noteq> [] then r else ''No resolution provided'')"

definition critical_issues :: "db \<Rightarrow> string \<Rightarrow> int \<Rightarrow> bool" where
  "critical_issues conn customer_id now =
     (count_open_high_older_than conn customer_id (now - timedelta_hours 24) > 0)"

definition analyze_issue :: "string \<Rightarrow> string \<Rightarrow> string \<Rightarrow> db \<Rightarrow> int \<Rightarrow> string \<times> analysis" where
  "analyze_issue issue_description customer_id product_id conn now =
     (let past_issues = count_issues conn customer_id;
          similar = find_resolved conn product_id;
          sev = determine_severity issue_description;
          critical = critical_issues conn customer_id now
      in (sev,
          \<lparr>past_issues_count = Some past_issues,
           similar_issues = Some (map (\<lambda>(desc, res).
               \<lparr>description = Some desc,
                resolution = Some (resolution_or_default res)\<rparr>) similar),
           severity = Some sev,
           has_critical_issues = Some critical\<rparr>))"

subsection \<open>Reply template\<close>

text \<open>
  The f-string of \<^verbatim>\<open>generate_template\<close>. Its fields are evaluated from left to right, so
  the first absent key, in the order \<^verbatim>\<open>severity\<close>, \<^verbatim>\<open>past_issues_count\<close>,
  \<^verbatim>\<open>has_critical_issues\<close>, \<^verbatim>\<open>similar_issues\<close>, raises \<^verbatim>\<open>KeyError\<close>. The last field reads
  the key \<^verbatim>\<open>resolution\<close> of the first entry when \<^verbatim>\<open>similar_issues\<close> is not empty, and
  raises \<^verbatim>\<open>KeyError\<close> when that entry does not hold the key. The text opens with the line
  break that follows the opening quotes.
\<close>

definition critical_note :: "bool \<Rightarrow> string" where
  "critical_note critical =
     (if critical then ''Note: Critical issues detected that need urgent attention.'' else '''')"

definition recommended_step :: "similar_issue list \<Rightarrow> py_error + string" where
  "recommended_step similar =
     (case similar of
        [] \<Rightarrow> Inr ''Please provide more details.''
      | first # _ \<Rightarrow>
          (case resolution first of
             None \<Rightarrow> Inl (KeyError ''resolution'')
           | Some res \<Rightarrow> Inr res))"

definition generate_template :: "string \<Rightarrow> analysis \<Rightarrow> py_error + string" where
  \<open>generate_template issue_description analysis =
     (case severity analysis of
        None \<Rightarrow> Inl (KeyError ''severity'')
      | Some sev \<Rightarrow>
     (case past_issues_count analysis of
        None \<Rightarrow> Inl (KeyError ''past_issues_count'')
      | Some past_issues \<Rightarrow>
     (case has_critical_issues analysis of
        None \<Rightarrow> Inl (KeyError ''has_critical_issues'')
      | Some critical \<Rightarrow>
     (case similar_issues analysis of
        None \<Rightarrow> Inl (KeyError ''similar_issues'')
      | Some similar \<Rightarrow>
     (case recommended_step similar of
        Inl e \<Rightarrow> Inl e
      | Inr step \<Rightarrow>
          Inr (''\<newline>Dear Customer,\<newline>\<newline>Thank you for reaching out regarding: "''
               @ issue_description
               @ ''".\<newline>\<newline>Based on our analysis:\<newline>- Issue Severity: ''
               @ sev
               @ ''\<newline>- Past Issues: ''
               @ str_int past_issues
               @ '' previous issues\<newline>- ''
               @ critical_note critical
               @ ''\<newline>\<newline>Recommended Steps:\<newline>1. ''
               @ step
               @ ''\<newline>\<newline>Best regards,\<newline>Support Team\<newline>''))))))\<close>

subsection \<open>Conversation summary\<close>

text \<open>
  The query orders the messages of the issue by timestamp; the loop appends one formatted
  entry per message to the header.
\<close>

definition list_messages :: "db \<Rightarrow> int \<Rightarrow> (string \<times> string) list" where
  "list_messages conn issue_id =
     map (\<lambda>m. (c_message m, c_sender m))
       (sort_key c_timestamp (filter (\<lambda>m. c_issue_id m = issue_id) (conversations conn)))"

definition summary_entry :: "string \<Rightarrow> string \<Rightarrow> string" where
  "summary_entry sender msg = ''- '' @ sender @ '': '' @ take 50 msg @ ''...\<newline>''"

definition summarize_conversation :: "int \<Rightarrow> db \<Rightarrow> string" where
  "summarize_conversation issue_id conn =
     foldl (\<lambda>summary (msg, sender). summary @ summary_entry sender msg)
       ''Conversation Summary:\<newline>'' (list_messages conn issue_id)"

subsection \<open>Dispatcher\<close>

text \<open>
  The request and response dictionaries of \<^verbatim>\<open>api_endpoint\<close>. \<open>elapsed_time\<close> is the
  difference of the two clock reads.
\<close>

record request =
  req_issue_description :: "string option"
  req_customer_id :: "string option"
  req_product_id :: "string option"
  req_analysis :: "analysis option"
  req_issue_id :: "int option"

record response_data =
  d_severity :: "string option"
  d_analysis :: "analysis option"
  d_template :: "string option"
  d_summary :: "string option"

record response =
  r_status :: string
  r_data :: response_data
  r_error :: "string option"

definition empty_analysis :: analysis where
  "empty_analysis = \<lparr>past_issues_count = None, similar_issues = None, severity = None,
                      has_critical_issues = None\<rparr>"

definition empty_data :: response_data where
  "empty_data = \<lparr>d_severity = None, d_analysis = None, d_template = None, d_summary = None\<rparr>"

text \<open>\<^verbatim>\<open>data.get(key, default)\<close>.\<close>

definition get_default :: "'a option \<Rightarrow> 'a \<Rightarrow> 'a" where
  "get_default v dflt = (case v of None \<Rightarrow> dflt | Some x \<Rightarrow> x)"

text \<open>The end of \<^verbatim>\<open>api_endpoint\<close>: the response is marked when the time budget is exceeded.\<close>

definition check_elapsed :: "response \<Rightarrow> real \<Rightarrow> response" where
  "check_elapsed resp elapsed_time =
     (if elapsed_time > 15
      then resp\<lparr>r_status := ''error'', r_error := Some ''Response time exceeded 15 seconds''\<rparr>
      else resp)"

text \<open>
  The branch \<^verbatim>\<open>/analyze_issue\<close> calls \<^verbatim>\<open>analyze_issue\<close> with three positional arguments;
  the function has four required parameters, and Python raises \<^verbatim>\<open>TypeError\<close> when it
  binds the arguments, before the body runs. The branch \<^verbatim>\<open>/summarize\<close> passes the
  connection.
\<close>

definition api_endpoint :: "string \<Rightarrow> request \<Rightarrow> real \<Rightarrow> py_error + response" where
  "api_endpoint endpoint data elapsed_time =
     (let resp = \<lparr>r_status = ''success'', r_data = empty_data, r_error = None\<rparr> in
      if endpoint = ''/analyze_issue'' then
        Inl (TypeError (''analyze_issue() missing 1 required positional argument: 'conn'' @ [CHR 0x27]))
      else if endpoint = ''/generate_template'' then
        (case generate_template (get_default (req_issue_description data) '''')
                (get_default (req_analysis data) empty_analysis) of
           Inl e \<Rightarrow> Inl e
         | Inr template \<Rightarrow>
             Inr (check_elapsed (resp\<lparr>r_data := empty_data\<lparr>d_template := Some template\<rparr>\<rparr>) elapsed_time))
      else if endpoint = ''/summarize'' then
        Inr (check_elapsed
               (resp\<lparr>r_data := empty_data\<lparr>d_summary :=
                  Some (summarize_conversation (get_default (req_issue_id data) 0) init_db)\<rparr>\<rparr>)
               elapsed_time)
      else Inr (check_elapsed resp elapsed_time))"

subsection \<open>Notions of the specification\<close>


text \<open>The lines of a text: the pieces between its line breaks, as \<^verbatim>\<open>str.split\<close> gives them.\<close>

fun split_lines :: "string \<Rightarrow> string list" where
  "split_lines [] = [[]]"
| "split_lines (c # cs) =
     (if c = CHR 0x0A then [] # split_lines cs
      else (case split_lines cs of
              [] \<Rightarrow> [[c]]
            | line # rest \<Rightarrow> (c # line) # rest))"

section \<open>Properties\<close>

subsection \<open>Severity classification\<close>






subsection \<open>Analysis\<close>

text \<open>
  Claim C9. The severity that \<^verbatim>\<open>analyze_issue\<close> returns as the first component of its
  result is the severity stored in the analysis it returns.
\<close>

theorem analyze_issue_severity_agrees:
  "severity (snd (analyze_issue issue_description customer_id product_id conn now))
     = Some (fst (analyze_issue issue_description customer_id product_id conn now))"
  by (simp add: analyze_issue_def Let_def)

lemma count_positive_iff: "int (length (filter P xs)) > 0 \<longleftrightarrow> (\<exists>x\<in>set xs. P x)"
  by (simp add: filter_empty_conv)

lemma sample_times:
  "datetime 2025 7 11 10 0 0 = datetime 2025 7 12 10 0 0 - timedelta_hours 24"
  "datetime 2025 7 11 10 0 0 = datetime 2025 7 12 10 0 1 - timedelta_hours 24 - timedelta_seconds 1"
  by (simp_all add: datetime_def days_before_year_def days_before_month_def days_in_month_def
        is_leap_def timedelta_hours_def timedelta_seconds_def)

text \<open>
  Claim C2. The escalation check of \<^verbatim>\<open>analyze_issue\<close> is true exactly when the store
  holds an issue of the customer with severity High and status Open that was created
  strictly before \<open>now\<close> minus 24 hours; its value is the field \<^verbatim>\<open>has_critical_issues\<close> of
  the analysis. An issue created exactly 24 hours before \<open>now\<close> does not change the
  result; an Open High issue of the customer created 24 hours and one second before
  \<open>now\<close> makes it true.
\<close>

theorem critical_issues_boundary:
  "(critical_issues conn customer_id now \<longleftrightarrow>
      (\<exists>r\<in>set (issues conn). i_customer_id r = customer_id \<and> i_severity r = ''High''
          \<and> i_status r = ''Open'' \<and> i_created_at r < now - timedelta_hours 24))
   \<and> has_critical_issues (snd (analyze_issue issue_description customer_id product_id conn now))
        = Some (critical_issues conn customer_id now)
   \<and> (i_created_at r = now - timedelta_hours 24
        \<longrightarrow> critical_issues (conn\<lparr>issues := r # issues conn\<rparr>) customer_id now
            = critical_issues conn customer_id now)
   \<and> (i_customer_id r = customer_id \<and> i_severity r = ''High'' \<and> i_status r = ''Open''
        \<and> i_created_at r = now - timedelta_hours 24 - timedelta_seconds 1
        \<longrightarrow> critical_issues (conn\<lparr>issues := r # issues conn\<rparr>) customer_id now)"
proof -
  have iff: "critical_issues c k n \<longleftrightarrow>
      (\<exists>r\<in>set (issues c). i_customer_id r = k \<and> i_severity r = ''High''
          \<and> i_status r = ''Open'' \<and> i_created_at r < n - timedelta_hours 24)" for c k n
    unfolding critical_issues_def count_open_high_older_than_def count_positive_iff ..
  have field: "has_critical_issues (snd (analyze_issue issue_description customer_id product_id conn now))
        = Some (critical_issues conn customer_id now)"
    by (simp add: analyze_issue_def Let_def)
  have at: "i_created_at r = now - timedelta_hours 24
        \<longrightarrow> critical_issues (conn\<lparr>issues := r # issues conn\<rparr>) customer_id now
            = critical_issues conn customer_id now"
    by (simp add: iff)
  have past: "i_customer_id r = customer_id \<and> i_severity r = ''High'' \<and> i_status r = ''Open''
        \<and> i_created_at r = now - timedelta_hours 24 - timedelta_seconds 1
        \<longrightarrow> critical_issues (conn\<lparr>issues := r # issues conn\<rparr>) customer_id now"
    by (simp add: iff timedelta_seconds_def)
  from iff [of conn customer_id now] field at past show ?thesis by blast
qed

theorem critical_issues_boundary_witness:
  "\<not> critical_issues
       \<lparr>issues = [\<lparr>i_id = 1, i_customer_id = ''CUST001'', i_issue_description = ''Login failure'',
          i_created_at = datetime 2025 7 11 10 0 0, i_severity = ''High'', i_status = ''Open'',
          i_product_id = ''PROD001'', i_resolution = None\<rparr>], conversations = []\<rparr>
       ''CUST001'' (datetime 2025 7 12 10 0 0)
   \<and> critical_issues
       \<lparr>issues = [\<lparr>i_id = 1, i_customer_id = ''CUST001'', i_issue_description = ''Login failure'',
          i_created_at = datetime 2025 7 11 10 0 0, i_severity = ''High'', i_status = ''Open'',
          i_product_id = ''PROD001'', i_resolution = None\<rparr>], conversations = []\<rparr>
       ''CUST001'' (datetime 2025 7 12 10 0 1)"
proof -
  let ?r = "\<lparr>i_id = 1, i_customer_id = ''CUST001'', i_issue_description = ''Login failure'',
          i_created_at = datetime 2025 7 11 10 0 0, i_severity = ''High'', i_status = ''Open'',
          i_product_id = ''PROD001'', i_resolution = None\<rparr>"
  let ?c = "\<lparr>issues = [], conversations = []\<rparr>"
  have none: "\<not> critical_issues ?c ''CUST001'' now" for now
    by (simp add: critical_issues_def count_open_high_older_than_def)
  have "critical_issues (?c\<lparr>issues := ?r # issues ?c\<rparr>) ''CUST001'' (datetime 2025 7 12 10 0 0)
          = critical_issues ?c ''CUST001'' (datetime 2025 7 12 10 0 0)"
    using critical_issues_boundary [of ?c "''CUST001''" "datetime 2025 7 12 10 0 0" _ _ ?r]
      sample_times(1) by simp
  moreover have "critical_issues (?c\<lparr>issues := ?r # issues ?c\<rparr>) ''CUST001'' (datetime 2025 7 12 10 0 1)"
    using critical_issues_boundary [of ?c "''CUST001''" "datetime 2025 7 12 10 0 1" _ _ ?r]
      sample_times(2) by simp
  ultimately show ?thesis using none by simp
qed

text \<open>
  Claim C6. The analysis holds one entry per resolved issue that the store returns for
  the product, in the order of the store: the entry carries the resolution as it is when
  it is a non-empty text, and the text \<^verbatim>\<open>No resolution provided\<close> when it is empty or absent.
\<close>

theorem similar_issues_in_store_order:
  "\<exists>sims. similar_issues (snd (analyze_issue issue_description customer_id product_id conn now))
            = Some sims
     \<and> length sims = length (find_resolved conn product_id)
     \<and> (\<forall>k<length sims.
           description (sims ! k) = Some (fst (find_resolved conn product_id ! k))
         \<and> (snd (find_resolved conn product_id ! k) = None
              \<or> snd (find_resolved conn product_id ! k) = Some []
            \<longrightarrow> resolution (sims ! k) = Some ''No resolution provided'')
         \<and> (\<forall>res. snd (find_resolved conn product_id ! k) = Some res \<and> res \<noteq> []
            \<longrightarrow> resolution (sims ! k) = Some res))"
proof -
  let ?pack = "\<lambda>(desc, res). \<lparr>description = Some desc,
                                resolution = Some (resolution_or_default res)\<rparr>"
  let ?found = "find_resolved conn product_id"
  have field: "similar_issues (snd (analyze_issue issue_description customer_id product_id conn now))
                 = Some (map ?pack ?found)"
    by (simp add: analyze_issue_def Let_def)
  have entry: "description (map ?pack ?found ! k) = Some (fst (?found ! k))
         \<and> (snd (?found ! k) = None \<or> snd (?found ! k) = Some []
            \<longrightarrow> resolution (map ?pack ?found ! k) = Some ''No resolution provided'')
         \<and> (\<forall>res. snd (?found ! k) = Some res \<and> res \<noteq> []
            \<longrightarrow> resolution (map ?pack ?found ! k) = Some res)"
    if "k < length (map ?pack ?found)" for k
  proof -
    from that have k: "k < length ?found" by simp
    obtain desc res where dr: "?found ! k = (desc, res)" by (cases "?found ! k")
    from k dr show ?thesis
      by (auto simp: resolution_or_default_def split: option.splits)
  qed
  from field entry show ?thesis by (intro exI [of _ "map ?pack ?found"]) simp
qed

theorem similar_issues_in_store_order_witness:
  "map resolution (the (similar_issues (snd (analyze_issue ''UI glitch'' ''CUST003'' ''PROD001''
     \<lparr>issues = [
        \<lparr>i_id = 1, i_customer_id = ''CUST002'', i_issue_description = ''UI glitch'',
         i_created_at = 0, i_severity = ''Low'', i_status = ''Resolved'',
         i_product_id = ''PROD001'', i_resolution = Some ''Restart the application''\<rparr>,
        \<lparr>i_id = 2, i_customer_id = ''CUST001'', i_issue_description = ''Login failure'',
         i_created_at = 0, i_severity = ''High'', i_status = ''Resolved'',
         i_product_id = ''PROD001'', i_resolution = None\<rparr>,
        \<lparr>i_id = 3, i_customer_id = ''CUST001'', i_issue_description = ''Crash'',
         i_created_at = 0, i_severity = ''High'', i_status = ''Resolved'',
         i_product_id = ''PROD001'', i_resolution = Some []\<rparr>],
      conversations = []\<rparr> 0))))
   = [Some ''Restart the application'', Some ''No resolution provided'',
      Some ''No resolution provided'']"
proof -
  let ?conn = "\<lparr>issues = [
        \<lparr>i_id = 1, i_customer_id = ''CUST002'', i_issue_description = ''UI glitch'',
         i_created_at = 0, i_severity = ''Low'', i_status = ''Resolved'',
         i_product_id = ''PROD001'', i_resolution = Some ''Restart the application''\<rparr>,
        \<lparr>i_id = 2, i_customer_id = ''CUST001'', i_issue_description = ''Login failure'',
         i_created_at = 0, i_severity = ''High'', i_status = ''Resolved'',
         i_product_id = ''PROD001'', i_resolution = None\<rparr>,
        \<lparr>i_id = 3, i_customer_id = ''CUST001'', i_issue_description = ''Crash'',
         i_created_at = 0, i_severity = ''High'', i_status = ''Resolved'',
         i_product_id = ''PROD001'', i_resolution = Some []\<rparr>],
      conversations = []\<rparr>"
  have found: "find_resolved ?conn ''PROD001''
      = [(''UI glitch'', Some ''Restart the application''), (''Login failure'', None), (''Crash'', Some [])]"
    by (simp add: find_resolved_def)
  from similar_issues_in_store_order [of "''UI glitch''" "''CUST003''" "''PROD001''" ?conn 0]
  obtain sims where
    field: "similar_issues (snd (analyze_issue ''UI glitch'' ''CUST003'' ''PROD001'' ?conn 0)) = Some sims"
    and len: "length sims = 3"
    and entries: "\<forall>k<length sims.
         (snd (find_resolved ?conn ''PROD001'' ! k) = None
              \<or> snd (find_resolved ?conn ''PROD001'' ! k) = Some []
            \<longrightarrow> resolution (sims ! k) = Some ''No resolution provided'')
         \<and> (\<forall>res. snd (find_resolved ?conn ''PROD001'' ! k) = Some res \<and> res \<noteq> []
            \<longrightarrow> resolution (sims ! k) = Some res)"
    unfolding found by auto
  from len obtain a b c where sims: "sims = [a, b, c]"
    by (auto simp: length_Suc_conv numeral_3_eq_3)
  from entries len have "resolution (sims ! 0) = Some ''Restart the application''"
    "resolution (sims ! 1) = Some ''No resolution provided''"
    "resolution (sims ! 2) = Some ''No resolution provided''"
    unfolding found by auto
  with sims field show ?thesis by simp
qed

subsection \<open>Conversation summary\<close>




subsection \<open>Reply template\<close>

text \<open>
  Claim C3 says that the template of an analysis without critical issues has no line for
  the critical notice at all. The f-string keeps the bullet outside the conditional
  expression: for the description \<^verbatim>\<open>UI glitch\<close> and an analysis with severity Low, no past
  issues, no similar issues and \<^verbatim>\<open>has_critical_issues\<close> false, the lines of the rendered
  template are the following, and the ninth is the bare bullet \<^verbatim>\<open>- \<close>.
\<close>

theorem template_keeps_bare_bullet:
  \<open>map_sum id split_lines
     (generate_template ''UI glitch''
        \<lparr>past_issues_count = Some 0, similar_issues = Some [], severity = Some ''Low'',
         has_critical_issues = Some False\<rparr>)
   = Inr ['''',
          ''Dear Customer,'',
          '''',
          ''Thank you for reaching out regarding: "UI glitch".'',
          '''',
          ''Based on our analysis:'',
          ''- Issue Severity: Low'',
          ''- Past Issues: 0 previous issues'',
          ''- '',
          '''',
          ''Recommended Steps:'',
          ''1. Please provide more details.'',
          '''',
          ''Best regards,'',
          ''Support Team'',
          '''']\<close>
  by (simp add: generate_template_def critical_note_def recommended_step_def str_int_def
        digit_char_def)

text \<open>
  Claim C4. Every rendered template ends with the heading \<^verbatim>\<open>Recommended Steps:\<close>, the
  numbered step and the sign-off, and the text of the step is the resolution of the first
  entry of \<^verbatim>\<open>similar_issues\<close> when there is one, and \<^verbatim>\<open>Please provide more details.\<close> when
  the list is empty.
\<close>

theorem template_recommended_step:
  "generate_template issue_description analysis = Inr template \<Longrightarrow>
     \<exists>head step similar.
        similar_issues analysis = Some similar
      \<and> template = head @ ''Recommended Steps:\<newline>1. '' @ step
                     @ ''\<newline>\<newline>Best regards,\<newline>Support Team\<newline>''
      \<and> (similar = [] \<longrightarrow> step = ''Please provide more details.'')
      \<and> (similar \<noteq> [] \<longrightarrow> resolution (hd similar) = Some step)"
proof -
  assume rendered: "generate_template issue_description analysis = Inr template"
  then obtain sev past_issues critical similar step where
    fields: "severity analysis = Some sev" "past_issues_count analysis = Some past_issues"
      "has_critical_issues analysis = Some critical" "similar_issues analysis = Some similar"
    and step: "recommended_step similar = Inr step"
    by (auto simp: generate_template_def split: option.splits sum.splits)
  let ?head = "''\<newline>Dear Customer,\<newline>\<newline>Thank you for reaching out regarding: '' @ [CHR 0x22]
               @ issue_description
               @ [CHR 0x22] @ ''.\<newline>\<newline>Based on our analysis:\<newline>- Issue Severity: ''
               @ sev
               @ ''\<newline>- Past Issues: ''
               @ str_int past_issues
               @ '' previous issues\<newline>- ''
               @ critical_note critical
               @ ''\<newline>\<newline>''"
  from rendered fields step have
    "template = ?head @ ''Recommended Steps:\<newline>1. '' @ step
                     @ ''\<newline>\<newline>Best regards,\<newline>Support Team\<newline>''"
    by (simp add: generate_template_def)
  moreover from step have "similar = [] \<longrightarrow> step = ''Please provide more details.''"
    by (auto simp: recommended_step_def)
  moreover from step have "similar \<noteq> [] \<longrightarrow> resolution (hd similar) = Some step"
    by (cases similar) (auto simp: recommended_step_def split: option.splits)
  ultimately show ?thesis using fields(4) by blast
qed

theorem template_recommended_step_witness:
  "(\<exists>head. generate_template ''UI glitch''
        \<lparr>past_issues_count = Some 0,
         similar_issues = Some [\<lparr>description = Some ''UI glitch'',
                                 resolution = Some ''Restart the application''\<rparr>,
                                \<lparr>description = Some ''Crash'', resolution = Some ''Reinstall''\<rparr>],
         severity = Some ''Low'', has_critical_issues = Some False\<rparr>
      = Inr (head @ ''Recommended Steps:\<newline>1. Restart the application\<newline>\<newline>Best regards,\<newline>Support Team\<newline>''))
   \<and> (\<exists>head. generate_template ''Login failure''
        \<lparr>past_issues_count = Some 0, similar_issues = Some [], severity = Some ''High'',
         has_critical_issues = Some False\<rparr>
      = Inr (head @ ''Recommended Steps:\<newline>1. Please provide more details.\<newline>\<newline>Best regards,\<newline>Support Team\<newline>''))"
proof -
  let ?a1 = "\<lparr>past_issues_count = Some 0,
         similar_issues = Some [\<lparr>description = Some ''UI glitch'',
                                 resolution = Some ''Restart the application''\<rparr>,
                                \<lparr>description = Some ''Crash'', resolution = Some ''Reinstall''\<rparr>],
         severity = Some ''Low'', has_critical_issues = Some False\<rparr>"
  let ?a0 = "\<lparr>past_issues_count = Some 0, similar_issues = Some [], severity = Some ''High'',
         has_critical_issues = Some False\<rparr>"
  obtain t1 where r1: "generate_template ''UI glitch'' ?a1 = Inr t1"
    by (simp add: generate_template_def recommended_step_def)
  obtain t0 where r0: "generate_template ''Login failure'' ?a0 = Inr t0"
    by (simp add: generate_template_def recommended_step_def)
  from template_recommended_step [OF r1]
  have "\<exists>head. t1 = head @ ''Recommended Steps:\<newline>1. Restart the application\<newline>\<newline>Best regards,\<newline>Support Team\<newline>''"
    by auto
  moreover from template_recommended_step [OF r0]
  have "\<exists>head. t0 = head @ ''Recommended Steps:\<newline>1. Please provide more details.\<newline>\<newline>Best regards,\<newline>Support Team\<newline>''"
    by auto
  ultimately show ?thesis using r1 r0 by simp
qed

text \<open>
  Claim C7 says that rendering never raises, also for an analysis with fields missing.
  It fails for the empty analysis, which is what the dispatcher passes on when the request
  has no analysis: the first field read is absent and \<^verbatim>\<open>KeyError\<close> is raised. It fails as
  well for an analysis with all four fields whose first similar issue holds no resolution.
\<close>

theorem generate_template_missing_field_counterexample:
  "generate_template [] empty_analysis = Inl (KeyError ''severity'')
   \<and> api_endpoint ''/generate_template''
        \<lparr>req_issue_description = None, req_customer_id = None, req_product_id = None,
         req_analysis = None, req_issue_id = None\<rparr> 0
      = Inl (KeyError ''severity'')
   \<and> generate_template ''UI glitch''
        \<lparr>past_issues_count = Some 0,
         similar_issues = Some [\<lparr>description = Some ''d'', resolution = None\<rparr>],
         severity = Some ''Low'', has_critical_issues = Some False\<rparr>
      = Inl (KeyError ''resolution'')
   \<and> api_endpoint ''/generate_template''
        \<lparr>req_issue_description = Some ''UI glitch'', req_customer_id = None,
         req_product_id = None,
         req_analysis = Some \<lparr>past_issues_count = Some 0,
           similar_issues = Some [\<lparr>description = Some ''d'', resolution = None\<rparr>],
           severity = Some ''Low'', has_critical_issues = Some False\<rparr>,
         req_issue_id = None\<rparr> 0
      = Inl (KeyError ''resolution'')"
  by (simp add: generate_template_def recommended_step_def empty_analysis_def api_endpoint_def
        get_default_def)

text \<open>
  Claim C7, amended. For every description and every analysis that holds the four fields
  \<^verbatim>\<open>severity\<close> (a text), \<^verbatim>\<open>past_issues_count\<close> (an integer), \<^verbatim>\<open>has_critical_issues\<close> (a
  boolean) and \<^verbatim>\<open>similar_issues\<close> (a list of dictionaries with text values), and whose
  first similar issue, when there is one, holds a resolution, rendering returns a text and
  raises nothing. A request to \<^verbatim>\<open>/generate_template\<close> that carries such an analysis
  gets a response whose data holds, as the template, exactly the text rendered for the
  description of the request (the empty text when it has none) and that analysis, and
  nothing else; the status is success, or error when the elapsed time is more than 15
  seconds.
\<close>

theorem generate_template_complete_analysis:
  "severity analysis \<noteq> None \<Longrightarrow> past_issues_count analysis \<noteq> None \<Longrightarrow>
   has_critical_issues analysis \<noteq> None \<Longrightarrow> similar_issues analysis = Some similar \<Longrightarrow>
   similar = [] \<or> resolution (hd similar) \<noteq> None \<Longrightarrow>
     (\<exists>template. generate_template issue_description analysis = Inr template)
   \<and> (req_analysis data = Some analysis \<longrightarrow>
        (\<exists>template.
            generate_template (case req_issue_description data of None \<Rightarrow> [] | Some d \<Rightarrow> d)
              analysis = Inr template
          \<and> api_endpoint ''/generate_template'' data elapsed_time
              = Inr \<lparr>r_status = (if elapsed_time > 15 then ''error'' else ''success''),
                     r_data = \<lparr>d_severity = None, d_analysis = None,
                               d_template = Some template, d_summary = None\<rparr>,
                     r_error = (if elapsed_time > 15
                                then Some ''Response time exceeded 15 seconds'' else None)\<rparr>))"
proof -
  assume fields: "severity analysis \<noteq> None" "past_issues_count analysis \<noteq> None"
    "has_critical_issues analysis \<noteq> None" "similar_issues analysis = Some similar"
  assume first: "similar = [] \<or> resolution (hd similar) \<noteq> None"
  from first have "\<exists>step. recommended_step similar = Inr step"
    by (cases similar) (auto simp: recommended_step_def)
  with fields have render: "\<exists>template. generate_template d analysis = Inr template" for d
    by (auto simp: generate_template_def)
  have "\<exists>template.
            generate_template (case req_issue_description data of None \<Rightarrow> [] | Some d \<Rightarrow> d)
              analysis = Inr template
          \<and> api_endpoint ''/generate_template'' data elapsed_time
              = Inr \<lparr>r_status = (if elapsed_time > 15 then ''error'' else ''success''),
                     r_data = \<lparr>d_severity = None, d_analysis = None,
                               d_template = Some template, d_summary = None\<rparr>,
                     r_error = (if elapsed_time > 15
                                then Some ''Response time exceeded 15 seconds'' else None)\<rparr>"
    if "req_analysis data = Some analysis"
  proof -
    from render obtain template where
      "generate_template (case req_issue_description data of None \<Rightarrow> [] | Some d \<Rightarrow> d)
         analysis = Inr template"
      by blast
    with that show ?thesis
      by (simp add: api_endpoint_def get_default_def check_elapsed_def empty_data_def Let_def)
  qed
  with render show ?thesis by blast
qed

theorem generate_template_complete_analysis_witness:
  \<open>generate_template ''UI glitch''
        \<lparr>past_issues_count = Some 2,
         similar_issues = Some [\<lparr>description = Some ''UI glitch'',
                                 resolution = Some ''Restart the application''\<rparr>,
                                \<lparr>description = Some ''Crash'', resolution = None\<rparr>],
         severity = Some ''Low'', has_critical_issues = Some True\<rparr>
      = Inr (''\<newline>Dear Customer,\<newline>\<newline>Thank you for reaching out regarding: "UI glitch".\<newline>\<newline>''
             @ ''Based on our analysis:\<newline>- Issue Severity: Low\<newline>- Past Issues: 2 previous issues\<newline>''
             @ ''- Note: Critical issues detected that need urgent attention.\<newline>\<newline>''
             @ ''Recommended Steps:\<newline>1. Restart the application\<newline>\<newline>''
             @ ''Best regards,\<newline>Support Team\<newline>'')
   \<and> api_endpoint ''/generate_template''
        \<lparr>req_issue_description = Some ''UI glitch'', req_customer_id = None,
         req_product_id = None,
         req_analysis = Some \<lparr>past_issues_count = Some 2,
           similar_issues = Some [\<lparr>description = Some ''UI glitch'',
                                   resolution = Some ''Restart the application''\<rparr>,
                                  \<lparr>description = Some ''Crash'', resolution = None\<rparr>],
           severity = Some ''Low'', has_critical_issues = Some True\<rparr>,
         req_issue_id = None\<rparr> 1
      = Inr \<lparr>r_status = ''success'',
             r_data = \<lparr>d_severity = None, d_analysis = None,
               d_template = Some
                 (''\<newline>Dear Customer,\<newline>\<newline>Thank you for reaching out regarding: "UI glitch".\<newline>\<newline>''
                  @ ''Based on our analysis:\<newline>- Issue Severity: Low\<newline>- Past Issues: 2 previous issues\<newline>''
                  @ ''- Note: Critical issues detected that need urgent attention.\<newline>\<newline>''
                  @ ''Recommended Steps:\<newline>1. Restart the application\<newline>\<newline>''
                  @ ''Best regards,\<newline>Support Team\<newline>''),
               d_summary = None\<rparr>,
             r_error = None\<rparr>\<close>
proof -
  let ?similar = "[\<lparr>description = Some ''UI glitch'',
                     resolution = Some ''Restart the application''\<rparr>,
                   \<lparr>description = Some ''Crash'', resolution = None\<rparr>]"
  let ?analysis = "\<lparr>past_issues_count = Some 2, similar_issues = Some ?similar,
                     severity = Some ''Low'', has_critical_issues = Some True\<rparr>"
  let ?data = "\<lparr>req_issue_description = Some ''UI glitch'', req_customer_id = None,
                 req_product_id = None, req_analysis = Some ?analysis, req_issue_id = None\<rparr>"
  have rendered: \<open>generate_template ''UI glitch'' ?analysis
      = Inr (''\<newline>Dear Customer,\<newline>\<newline>Thank you for reaching out regarding: "UI glitch".\<newline>\<newline>''
             @ ''Based on our analysis:\<newline>- Issue Severity: Low\<newline>- Past Issues: 2 previous issues\<newline>''
             @ ''- Note: Critical issues detected that need urgent attention.\<newline>\<newline>''
             @ ''Recommended Steps:\<newline>1. Restart the application\<newline>\<newline>''
             @ ''Best regards,\<newline>Support Team\<newline>'')\<close>
    by (simp add: generate_template_def critical_note_def recommended_step_def str_int_def
          digit_char_def)
  from generate_template_complete_analysis
         [where analysis = ?analysis and similar = ?similar and data = ?data
            and elapsed_time = 1 and issue_description = "''UI glitch''"]
  obtain template where
    same: "generate_template ''UI glitch'' ?analysis = Inr template"
    and resp: "api_endpoint ''/generate_template'' ?data 1
      = Inr \<lparr>r_status = ''success'',
             r_data = \<lparr>d_severity = None, d_analysis = None,
                       d_template = Some template, d_summary = None\<rparr>,
             r_error = None\<rparr>"
    by auto
  from same rendered resp show ?thesis by simp
qed

subsection \<open>Dispatcher\<close>

text \<open>
  Claim C8 says that every request to \<^verbatim>\<open>/analyze_issue\<close> gets a response with status
  success and the severity and analysis as data. In the code the call of \<^verbatim>\<open>analyze_issue\<close>
  leaves out the connection, so for every request and every elapsed time the dispatcher
  raises \<^verbatim>\<open>TypeError\<close> and returns no response.
\<close>

theorem api_endpoint_analyze_issue_raises:
  "\<exists>msg. api_endpoint ''/analyze_issue'' data elapsed_time = Inl (TypeError msg)"
  by (simp add: api_endpoint_def)

text \<open>
  Claim C10 says that an endpoint other than the three known ones always gets status
  success. It fails when the two clock reads are more than 15 seconds apart: the response
  is then marked as an error.
\<close>

theorem api_endpoint_unknown_slow_counterexample:
  "api_endpoint ''/unknown''
     \<lparr>req_issue_description = None, req_customer_id = None, req_product_id = None,
      req_analysis = None, req_issue_id = None\<rparr> 16
   = Inr \<lparr>r_status = ''error'', r_data = empty_data,
          r_error = Some ''Response time exceeded 15 seconds''\<rparr>"
  by (simp add: api_endpoint_def check_elapsed_def)

text \<open>
  Claim C10, amended. For every endpoint other than \<^verbatim>\<open>/analyze_issue\<close>,
  \<^verbatim>\<open>/generate_template\<close> and \<^verbatim>\<open>/summarize\<close> the dispatcher returns a response with empty
  data; its status is success, with no error entry, when the elapsed time is at most 15
  seconds, and error, with the message of the time budget, when it is more.
\<close>

theorem api_endpoint_unknown:
  "endpoint \<noteq> ''/analyze_issue'' \<Longrightarrow> endpoint \<noteq> ''/generate_template'' \<Longrightarrow>
   endpoint \<noteq> ''/summarize'' \<Longrightarrow>
     api_endpoint endpoint data elapsed_time
       = Inr (if elapsed_time \<le> 15
              then \<lparr>r_status = ''success'', r_data = empty_data, r_error = None\<rparr>
              else \<lparr>r_status = ''error'', r_data = empty_data,
                    r_error = Some ''Response time exceeded 15 seconds''\<rparr>)"
  by (simp add: api_endpoint_def check_elapsed_def)

theorem api_endpoint_unknown_witness:
  "api_endpoint ''/unknown''
     \<lparr>req_issue_description = None, req_customer_id = None, req_product_id = None,
      req_analysis = None, req_issue_id = None\<rparr> 1
   = Inr \<lparr>r_status = ''success'', r_data = empty_data, r_error = None\<rparr>"
  using api_endpoint_unknown [of "''/unknown''"
     "\<lparr>req_issue_description = None, req_customer_id = None, req_product_id = None,
      req_analysis = None, req_issue_id = None\<rparr>" 1]
  by simp

end
